theory Spec2Isabelle
  imports Complex_Main "HOL-Library.Word"
begin

section \<open>The RegExp execution protocol of \<^verbatim>\<open>src/regexp/regexp-utils.cc\<close>\<close>

text \<open>
  The file implements the abstract operations of ECMAScript that drive a regex-like object:
  \<^verbatim>\<open>RegExpExec\<close>, the \<^verbatim>\<open>lastIndex\<close> accessors, \<^verbatim>\<open>IsRegExp\<close>,
  \<^verbatim>\<open>AdvanceStringIndex\<close> and the capture getter over the last-match buffer.
  Each function is embedded below under its own name; \<^verbatim>\<open>SetLastMatchField\<close> and
  \<^verbatim>\<open>IsBuiltinExec\<close>, on which nothing below depends, are left out. What the file only
  calls (generic property access, calls into user code, \<^verbatim>\<open>ToLength\<close>, the truthiness of
  a value, the substring of a string) lives elsewhere in the engine; those operations are
  fields of the record \<open>Isolate\<close>, so every theorem holds for whatever they do.

  Conventions of the embedding:
  \<^item> a \<^verbatim>\<open>MaybeHandle<Object>\<close> is a value of \<open>Error + Object\<close>; the empty handle (a pending
    exception) is \<open>Inl\<close>;
  \<^item> the heap is passed explicitly: a function that may run user code takes the heap and
    returns the heap that the run left behind;
  \<^item> a C++ \<^verbatim>\<open>int\<close> is an \<open>int\<close> between \<open>INT_MIN\<close> and \<open>INT_MAX\<close>; an
    addition or multiplication that can leave the range wraps (\<open>wrap_int\<close>);
  \<^item> a small integer (\<^verbatim>\<open>Smi\<close>) carries 32 bits of payload, the 64-bit configuration of
    the engine, so \<^verbatim>\<open>Smi::FromInt\<close> is defined on every \<^verbatim>\<open>int\<close>;
  \<^item> an unchecked access that the C++ guards only by a debug assertion (a string read out
    of range, a cast of a value of the wrong kind) is the error \<open>Fatal\<close>.
\<close>

subsection \<open>Values\<close>

type_synonym addr = nat
type_synonym uc16 = "16 word"

text \<open>A string is its sequence of UTF-16 code units.\<close>

type_synonym String = "uc16 list"

datatype Object =
    Undefined
  | Null
  | Boolean bool
  | Smi int
  | HeapNumber real
  | String String
  | Symbol nat
  | JSReceiver addr

datatype Name = StringName String | match_symbol

datatype LanguageMode = SLOPPY | STRICT

datatype MessageTemplate = kInvalidRegExpExecResult | kIncompatibleMethodReceiver

datatype FatalKind = StringIndexOutOfRange int | NotASmi Object | NotAString Object

datatype Error =
    NewTypeError MessageTemplate "Object list"
  | Exception Object
  | Fatal FatalKind

definition INT_MAX :: int where
  "INT_MAX = 2147483647"

definition INT_MIN :: int where
  "INT_MIN = - 2147483648"

definition wrap_int :: "int \<Rightarrow> int" where
  "wrap_int x = (x + 2147483648) mod 4294967296 - 2147483648"

definition NewStringFromAsciiChecked :: "string \<Rightarrow> String" where
  "NewStringFromAsciiChecked cs = map (\<lambda>c. word_of_nat (of_char c)) cs"

definition lastIndex_string :: Name where
  "lastIndex_string = StringName (NewStringFromAsciiChecked ''lastIndex'')"

definition empty_string :: String where
  "empty_string = []"

definition IsUndefined :: "Object \<Rightarrow> bool" where
  "IsUndefined obj = (case obj of Undefined \<Rightarrow> True | _ \<Rightarrow> False)"

definition IsNull :: "Object \<Rightarrow> bool" where
  "IsNull obj = (case obj of Null \<Rightarrow> True | _ \<Rightarrow> False)"

definition IsJSReceiver :: "Object \<Rightarrow> bool" where
  "IsJSReceiver obj = (case obj of JSReceiver a \<Rightarrow> True | _ \<Rightarrow> False)"

text \<open>\<^verbatim>\<open>Handle<Smi>::cast(obj)->value()\<close> and \<^verbatim>\<open>Handle<String>::cast(obj)\<close>.\<close>

definition Smi_value :: "Object \<Rightarrow> Error + int" where
  "Smi_value obj = (case obj of Smi n \<Rightarrow> Inr n | _ \<Rightarrow> Inl (Fatal (NotASmi obj)))"

definition String_cast :: "Object \<Rightarrow> Error + String" where
  "String_cast obj = (case obj of String s \<Rightarrow> Inr s | _ \<Rightarrow> Inl (Fatal (NotAString obj)))"

subsection \<open>Strings\<close>

definition String_length :: "String \<Rightarrow> int" where
  "String_length s = int (length s)"

text \<open>\<^verbatim>\<open>String::Get(index)\<close> is defined for \<open>0 \<le> index < length\<close> only.\<close>

definition String_Get :: "String \<Rightarrow> int \<Rightarrow> Error + uc16" where
  "String_Get s index =
     (if 0 \<le> index \<and> index < String_length s then Inr (s ! nat index)
      else Inl (Fatal (StringIndexOutOfRange index)))"

subsection \<open>AdvanceStringIndex\<close>

text \<open>
  \<^verbatim>\<open>int RegExpUtils::AdvanceStringIndex(isolate, string, index, unicode)\<close>. The result is a
  pair: the positions handed to \<^verbatim>\<open>String::Get\<close>, in the order of the calls, and the
  increment. In \<^verbatim>\<open>index + 1\<close> the index is below \<^verbatim>\<open>string->length()\<close>, an \<^verbatim>\<open>int\<close>,
  so the sum stays in range.
\<close>

definition AdvanceStringIndex :: "String \<Rightarrow> int \<Rightarrow> bool \<Rightarrow> int list \<times> (Error + int)" where
  "AdvanceStringIndex string index unicode =
     (if unicode \<and> index < String_length string then
        (case String_Get string index of
           Inl e \<Rightarrow> ([index], Inl e)
         | Inr first \<Rightarrow>
             if first \<ge> 0xD800 \<and> first \<le> 0xDBFF \<and> String_length string > index + 1 then
               (case String_Get string (index + 1) of
                  Inl e \<Rightarrow> ([index, index + 1], Inl e)
                | Inr second \<Rightarrow>
                    ([index, index + 1],
                     Inr (if second \<ge> 0xDC00 \<and> second \<le> 0xDFFF then 2 else 1)))
             else ([index], Inr 1))
      else ([], Inr 1))"

text \<open>Surrogate code units, and a surrogate pair that starts at a position of a string.\<close>

definition is_leading_surrogate :: "uc16 \<Rightarrow> bool" where
  "is_leading_surrogate c = (0xD800 \<le> c \<and> c \<le> 0xDBFF)"

definition is_trailing_surrogate :: "uc16 \<Rightarrow> bool" where
  "is_trailing_surrogate c = (0xDC00 \<le> c \<and> c \<le> 0xDFFF)"

definition surrogate_pair_at :: "String \<Rightarrow> int \<Rightarrow> bool" where
  "surrogate_pair_at s index =
     (0 \<le> index \<and> index + 1 < String_length s \<and>
      is_leading_surrogate (s ! nat index) \<and> is_trailing_surrogate (s ! nat (index + 1)))"

subsection \<open>Heap objects and the engine's collaborators\<close>

datatype InstanceType = JS_REGEXP_TYPE | JS_FUNCTION_TYPE | JS_OBJECT_TYPE | JS_PROXY_TYPE

text \<open>
  What the file reads of a heap object: the identity of its hidden class (\<^verbatim>\<open>map()\<close>), its
  instance type, the callable bit, the in-object \<^verbatim>\<open>lastIndex\<close> slot of a \<^verbatim>\<open>JSRegExp\<close>
  and its indexed elements. The named properties and the extensible bit are read by the
  engine's generic property access only.
\<close>

record HeapObject =
  obj_map :: nat
  instance_type :: InstanceType
  is_callable :: bool
  is_extensible :: bool
  last_index :: Object
  elements :: "Object list"
  properties :: "(Name \<times> Object) list"

type_synonym Heap = "addr \<Rightarrow> HeapObject"

text \<open>
  The collaborators that \<^verbatim>\<open>regexp-utils.cc\<close> calls and does not define:
  \<^verbatim>\<open>Object::GetProperty\<close>, \<^verbatim>\<open>Object::SetProperty\<close>, \<^verbatim>\<open>Execution::Call\<close>,
  \<^verbatim>\<open>Object::ToLength\<close>, \<^verbatim>\<open>Object::BooleanValue\<close>, \<^verbatim>\<open>Factory::NewSubString\<close>, and
  the two values the isolate holds: the initial map of the \<^verbatim>\<open>RegExp\<close> function and the
  built-in \<^verbatim>\<open>RegExp.prototype.exec\<close>. Each of the first four may run user code: it
  returns a value or an exception, and the heap it left.
\<close>

record Isolate =
  regexp_function_initial_map :: nat
  regexp_exec_function :: Object
  GetProperty :: "Heap \<Rightarrow> Object \<Rightarrow> Name \<Rightarrow> (Error + Object) \<times> Heap"
  SetProperty :: "Heap \<Rightarrow> Object \<Rightarrow> Name \<Rightarrow> Object \<Rightarrow> LanguageMode \<Rightarrow> (Error + Object) \<times> Heap"
  Execution_Call :: "Heap \<Rightarrow> Object \<Rightarrow> Object \<Rightarrow> Object list \<Rightarrow> (Error + Object) \<times> Heap"
  ToLength :: "Heap \<Rightarrow> Object \<Rightarrow> (Error + Object) \<times> Heap"
  BooleanValue :: "Heap \<Rightarrow> Object \<Rightarrow> bool"
  NewSubString :: "String \<Rightarrow> int \<Rightarrow> int \<Rightarrow> String"

definition IsCallable :: "Heap \<Rightarrow> Object \<Rightarrow> bool" where
  "IsCallable heap obj = (case obj of JSReceiver a \<Rightarrow> is_callable (heap a) | _ \<Rightarrow> False)"

definition IsJSRegExp :: "Heap \<Rightarrow> Object \<Rightarrow> bool" where
  "IsJSRegExp heap obj =
     (case obj of JSReceiver a \<Rightarrow> instance_type (heap a) = JS_REGEXP_TYPE | _ \<Rightarrow> False)"

subsection \<open>The last-match buffer\<close>

text \<open>
  The indices of the fields of \<^verbatim>\<open>RegExpLastMatchInfo\<close> are constants of
  \<^verbatim>\<open>RegExpImpl\<close>, declared in \<^verbatim>\<open>jsregexp.h\<close>; they are parameters here.
\<close>

record RegExpImpl =
  kLastCaptureCount :: int
  kLastSubject :: int
  kLastInput :: int
  kFirstCapture :: int

text \<open>
  \<^verbatim>\<open>JSReceiver::GetElement(isolate, match_info, index)\<close> on the elements of the buffer: the
  index is converted to \<^verbatim>\<open>uint32_t\<close>, and an element that is not there reads as
  \<open>Undefined\<close>.
\<close>

definition GetElement :: "Heap \<Rightarrow> addr \<Rightarrow> int \<Rightarrow> Object" where
  "GetElement heap object index =
     (let i = nat (index mod 4294967296) in
      if i < length (elements (heap object)) then elements (heap object) ! i else Undefined)"

definition GetLastMatchField :: "Heap \<Rightarrow> addr \<Rightarrow> int \<Rightarrow> Object" where
  "GetLastMatchField heap match_info index = GetElement heap match_info index"

definition GetLastMatchNumberOfCaptures :: "RegExpImpl \<Rightarrow> Heap \<Rightarrow> addr \<Rightarrow> Error + int" where
  "GetLastMatchNumberOfCaptures impl heap match_info =
     Smi_value (GetLastMatchField heap match_info (kLastCaptureCount impl))"

definition GetLastMatchSubject :: "RegExpImpl \<Rightarrow> Heap \<Rightarrow> addr \<Rightarrow> Error + String" where
  "GetLastMatchSubject impl heap match_info =
     String_cast (GetLastMatchField heap match_info (kLastSubject impl))"

definition GetLastMatchInput :: "RegExpImpl \<Rightarrow> Heap \<Rightarrow> addr \<Rightarrow> Object" where
  "GetLastMatchInput impl heap match_info = GetLastMatchField heap match_info (kLastInput impl)"

definition GetLastMatchCapture :: "RegExpImpl \<Rightarrow> Heap \<Rightarrow> addr \<Rightarrow> int \<Rightarrow> Error + int" where
  "GetLastMatchCapture impl heap match_info i =
     Smi_value (GetLastMatchField heap match_info (wrap_int (kFirstCapture impl + i)))"

text \<open>
  The out-parameter \<^verbatim>\<open>bool* ok\<close>: \<open>None\<close> is the null pointer, \<open>Some b\<close> a pointer to a
  \<^verbatim>\<open>bool\<close> that holds \<open>b\<close>. \<^verbatim>\<open>if (ok != nullptr) *ok = b\<close> is \<open>store_ok\<close>.
\<close>

definition store_ok :: "bool option \<Rightarrow> bool \<Rightarrow> bool option" where
  "store_ok ok b = (case ok of None \<Rightarrow> None | Some old \<Rightarrow> Some b)"

text \<open>
  \<^verbatim>\<open>RegExpUtils::GenericCaptureGetter(isolate, match_info, capture, ok)\<close> returns the string
  and what \<open>ok\<close> points to afterwards. \<^verbatim>\<open>capture * 2\<close> can leave the range of \<^verbatim>\<open>int\<close>;
  in \<^verbatim>\<open>index + 1\<close> the index is below the capture count, an \<^verbatim>\<open>int\<close>.
\<close>

definition GenericCaptureGetter ::
  "RegExpImpl \<Rightarrow> Isolate \<Rightarrow> Heap \<Rightarrow> addr \<Rightarrow> int \<Rightarrow> bool option \<Rightarrow>
   Error + (String \<times> bool option)" where
  "GenericCaptureGetter impl isolate heap match_info capture ok =
     (let index = wrap_int (capture * 2) in
      case GetLastMatchNumberOfCaptures impl heap match_info of
        Inl e \<Rightarrow> Inl e
      | Inr number_of_captures \<Rightarrow>
          if index \<ge> number_of_captures then Inr (empty_string, store_ok ok False)
          else
            (case GetLastMatchCapture impl heap match_info index of
               Inl e \<Rightarrow> Inl e
             | Inr match_start \<Rightarrow>
                 (case GetLastMatchCapture impl heap match_info (index + 1) of
                    Inl e \<Rightarrow> Inl e
                  | Inr match_end \<Rightarrow>
                      if match_start = - 1 \<or> match_end = - 1
                      then Inr (empty_string, store_ok ok False)
                      else
                        (case GetLastMatchSubject impl heap match_info of
                           Inl e \<Rightarrow> Inl e
                         | Inr last_subject \<Rightarrow>
                             Inr (NewSubString isolate last_subject match_start match_end,
                                  store_ok ok True)))))"

subsection \<open>The lastIndex accessors\<close>

definition HasInitialRegExpMap :: "Isolate \<Rightarrow> Heap \<Rightarrow> addr \<Rightarrow> bool" where
  "HasInitialRegExpMap isolate heap recv =
     (obj_map (heap recv) = regexp_function_initial_map isolate)"

text \<open>
  \<^verbatim>\<open>JSRegExp::cast(*recv)->SetLastIndex(value)\<close> stores \<^verbatim>\<open>Smi::FromInt(value)\<close> in the
  slot, and \<^verbatim>\<open>JSRegExp::cast(*recv)->LastIndex()\<close> reads the slot. Both are reached
  behind \<open>HasInitialRegExpMap\<close> only, and an object with that map is a \<^verbatim>\<open>JSRegExp\<close>,
  so the cast is no check of its own here.
\<close>

definition JSRegExp_SetLastIndex :: "Heap \<Rightarrow> addr \<Rightarrow> int \<Rightarrow> Heap" where
  "JSRegExp_SetLastIndex heap recv v = heap(recv := (heap recv)\<lparr>last_index := Smi v\<rparr>)"

definition JSRegExp_LastIndex :: "Heap \<Rightarrow> addr \<Rightarrow> Object" where
  "JSRegExp_LastIndex heap recv = last_index (heap recv)"

definition SetLastIndex :: "Isolate \<Rightarrow> Heap \<Rightarrow> addr \<Rightarrow> int \<Rightarrow> (Error + Object) \<times> Heap" where
  "SetLastIndex isolate heap recv v =
     (if HasInitialRegExpMap isolate heap recv
      then (Inr (JSReceiver recv), JSRegExp_SetLastIndex heap recv v)
      else SetProperty isolate heap (JSReceiver recv) lastIndex_string (Smi v) STRICT)"

definition GetLastIndex :: "Isolate \<Rightarrow> Heap \<Rightarrow> addr \<Rightarrow> (Error + Object) \<times> Heap" where
  "GetLastIndex isolate heap recv =
     (if HasInitialRegExpMap isolate heap recv
      then (Inr (JSRegExp_LastIndex heap recv), heap)
      else GetProperty isolate heap (JSReceiver recv) lastIndex_string)"

subsection \<open>RegExpExec\<close>

text \<open>
  \<^verbatim>\<open>RegExpUtils::RegExpExec(isolate, regexp, string, exec)\<close>. The receiver is a
  \<^verbatim>\<open>Handle<JSReceiver>\<close>, hence an address; \<open>exec\<close> is any value, \<open>Undefined\<close> when the
  caller has not fetched it.
\<close>

definition RegExpExec ::
  "Isolate \<Rightarrow> Heap \<Rightarrow> addr \<Rightarrow> String \<Rightarrow> Object \<Rightarrow> (Error + Object) \<times> Heap" where
  "RegExpExec isolate heap regexp string exec =
     (case (if IsUndefined exec
            then GetProperty isolate heap (JSReceiver regexp)
                   (StringName (NewStringFromAsciiChecked ''exec''))
            else (Inr exec, heap)) of
        (Inl e, heap1) \<Rightarrow> (Inl e, heap1)
      | (Inr exec1, heap1) \<Rightarrow>
          if IsCallable heap1 exec1 then
            (case Execution_Call isolate heap1 exec1 (JSReceiver regexp) [String string] of
               (Inl e, heap2) \<Rightarrow> (Inl e, heap2)
             | (Inr result, heap2) \<Rightarrow>
                 if \<not> IsJSReceiver result \<and> \<not> IsNull result
                 then (Inl (NewTypeError kInvalidRegExpExecResult []), heap2)
                 else (Inr result, heap2))
          else if \<not> IsJSRegExp heap1 (JSReceiver regexp) then
            (Inl (NewTypeError kIncompatibleMethodReceiver
                    [String (NewStringFromAsciiChecked ''RegExp.prototype.exec''),
                     JSReceiver regexp]),
             heap1)
          else
            Execution_Call isolate heap1 (regexp_exec_function isolate) (JSReceiver regexp)
              [String string])"

subsection \<open>IsRegExp\<close>

definition IsRegExp :: "Isolate \<Rightarrow> Heap \<Rightarrow> Object \<Rightarrow> (Error + bool) \<times> Heap" where
  "IsRegExp isolate heap object =
     (case object of
        JSReceiver receiver \<Rightarrow>
          if regexp_function_initial_map isolate = obj_map (heap receiver) then (Inr True, heap)
          else
            (case GetProperty isolate heap (JSReceiver receiver) match_symbol of
               (Inl e, heap1) \<Rightarrow> (Inl e, heap1)
             | (Inr match, heap1) \<Rightarrow>
                 if \<not> IsUndefined match then (Inr (BooleanValue isolate heap1 match), heap1)
                 else (Inr (IsJSRegExp heap1 object), heap1))
      | _ \<Rightarrow> (Inr False, heap))"

subsection \<open>SetAdvancedStringIndex\<close>

text \<open>
  \<^verbatim>\<open>RegExpUtils::SetAdvancedStringIndex(isolate, regexp, string, unicode)\<close>: the property
  is read with \<^verbatim>\<open>Object::GetProperty\<close>, coerced with \<^verbatim>\<open>Object::ToLength\<close>, cast to a
  \<^verbatim>\<open>Smi\<close>, advanced in \<^verbatim>\<open>int\<close> arithmetic and stored with \<open>SetLastIndex\<close>.
\<close>

definition SetAdvancedStringIndex ::
  "Isolate \<Rightarrow> Heap \<Rightarrow> addr \<Rightarrow> String \<Rightarrow> bool \<Rightarrow> (Error + Object) \<times> Heap" where
  "SetAdvancedStringIndex isolate heap regexp string unicode =
     (case GetProperty isolate heap (JSReceiver regexp) lastIndex_string of
        (Inl e, heap1) \<Rightarrow> (Inl e, heap1)
      | (Inr property, heap1) \<Rightarrow>
          (case ToLength isolate heap1 property of
             (Inl e, heap2) \<Rightarrow> (Inl e, heap2)
           | (Inr last_index_obj, heap2) \<Rightarrow>
               (case Smi_value last_index_obj of
                  Inl e \<Rightarrow> (Inl e, heap2)
                | Inr last_index_int \<Rightarrow>
                    (case snd (AdvanceStringIndex string last_index_int unicode) of
                       Inl e \<Rightarrow> (Inl e, heap2)
                     | Inr increment \<Rightarrow>
                         SetLastIndex isolate heap2 regexp
                           (wrap_int (last_index_int + increment))))))"

text \<open>
  The increment in the words of the specification: 2 when in full-Unicode mode a leading
  surrogate at the position is followed by a trailing surrogate, 1 otherwise.
\<close>

definition AdvanceIndex_spec :: "String \<Rightarrow> int \<Rightarrow> bool \<Rightarrow> int" where
  "AdvanceIndex_spec s index unicode = (if unicode \<and> surrogate_pair_at s index then 2 else 1)"

section \<open>An example engine\<close>

text \<open>
  A small engine and a heap on which the functions can be run. A proxy throws on every
  property access; the \<^verbatim>\<open>lastIndex\<close> of a \<^verbatim>\<open>JSRegExp\<close> is its in-object slot; a
  strict store to an object that is not extensible throws, a sloppy one is dropped.
  The functions at the addresses 10 to 13 return null, the number 7, an exception and an
  object; the one at 20 stands for the built-in exec function and sets the
  \<^verbatim>\<open>lastIndex\<close> of its receiver. The heap holds an unmodified regular expression (21), one
  with a changed map (2), plain objects with properties (3, 14 to 17), an object that is
  not extensible (4), a last-match buffer (5) and a proxy (6).
  \<open>V8_RegExpImpl\<close> holds the field indices that \<^verbatim>\<open>jsregexp.h\<close> gives.
\<close>

definition example_GetProperty :: "Heap \<Rightarrow> Object \<Rightarrow> Name \<Rightarrow> (Error + Object) \<times> Heap" where
  "example_GetProperty heap obj name =
     (case obj of
        JSReceiver a \<Rightarrow>
          if instance_type (heap a) = JS_PROXY_TYPE then (Inl (Exception (Smi 99)), heap)
          else if instance_type (heap a) = JS_REGEXP_TYPE \<and> name = lastIndex_string
          then (Inr (last_index (heap a)), heap)
          else (case map_of (properties (heap a)) name of
                  Some v \<Rightarrow> (Inr v, heap)
                | None \<Rightarrow> (Inr Undefined, heap))
      | _ \<Rightarrow> (Inr Undefined, heap))"

definition example_SetProperty ::
  "Heap \<Rightarrow> Object \<Rightarrow> Name \<Rightarrow> Object \<Rightarrow> LanguageMode \<Rightarrow> (Error + Object) \<times> Heap" where
  "example_SetProperty heap obj name v mode =
     (case obj of
        JSReceiver a \<Rightarrow>
          if instance_type (heap a) = JS_PROXY_TYPE then (Inl (Exception (Smi 99)), heap)
          else if instance_type (heap a) = JS_REGEXP_TYPE \<and> name = lastIndex_string
          then (Inr v, heap(a := (heap a)\<lparr>last_index := v\<rparr>))
          else if is_extensible (heap a)
          then (Inr v, heap(a := (heap a)\<lparr>properties := (name, v) # properties (heap a)\<rparr>))
          else if mode = STRICT then (Inl (Exception (Smi 98)), heap)
          else (Inr v, heap)
      | _ \<Rightarrow> (Inr v, heap))"

definition example_Call ::
  "Heap \<Rightarrow> Object \<Rightarrow> Object \<Rightarrow> Object list \<Rightarrow> (Error + Object) \<times> Heap" where
  "example_Call heap callee recv args =
     (if callee = JSReceiver 10 then (Inr Null, heap)
      else if callee = JSReceiver 11 then (Inr (Smi 7), heap)
      else if callee = JSReceiver 12 then (Inl (Exception (Smi 97)), heap)
      else if callee = JSReceiver 13 then (Inr (JSReceiver 3), heap)
      else if callee = JSReceiver 20 then
        (case recv of
           JSReceiver a \<Rightarrow> (Inr (JSReceiver 5), heap(a := (heap a)\<lparr>last_index := Smi 1\<rparr>))
         | _ \<Rightarrow> (Inl (Exception (Smi 96)), heap))
      else (Inr Undefined, heap))"

definition example_ToLength :: "Heap \<Rightarrow> Object \<Rightarrow> (Error + Object) \<times> Heap" where
  "example_ToLength heap v =
     (case v of
        Smi n \<Rightarrow> (Inr (Smi (max 0 n)), heap)
      | HeapNumber x \<Rightarrow>
          (let n = min (max \<lfloor>x\<rfloor> 0) 9007199254740991 in
           (Inr (if n \<le> 2147483647 then Smi n else HeapNumber (of_int n)), heap))
      | Symbol k \<Rightarrow> (Inl (Exception (Smi 95)), heap)
      | _ \<Rightarrow> (Inr (Smi 0), heap))"

definition example_BooleanValue :: "Heap \<Rightarrow> Object \<Rightarrow> bool" where
  "example_BooleanValue heap v =
     (case v of
        Undefined \<Rightarrow> False
      | Null \<Rightarrow> False
      | Boolean b \<Rightarrow> b
      | Smi n \<Rightarrow> n \<noteq> 0
      | HeapNumber x \<Rightarrow> x \<noteq> 0
      | String s \<Rightarrow> s \<noteq> []
      | _ \<Rightarrow> True)"

definition example_NewSubString :: "String \<Rightarrow> int \<Rightarrow> int \<Rightarrow> String" where
  "example_NewSubString str begin_index end_index =
     take (nat (end_index - begin_index)) (drop (nat begin_index) str)"

definition example_isolate :: Isolate where
  "example_isolate =
     \<lparr>regexp_function_initial_map = 7,
      regexp_exec_function = JSReceiver 20,
      GetProperty = example_GetProperty,
      SetProperty = example_SetProperty,
      Execution_Call = example_Call,
      ToLength = example_ToLength,
      BooleanValue = example_BooleanValue,
      NewSubString = example_NewSubString\<rparr>"

definition plain_object :: HeapObject where
  "plain_object =
     \<lparr>obj_map = 9, instance_type = JS_OBJECT_TYPE, is_callable = False, is_extensible = True,
      last_index = Undefined, elements = [], properties = []\<rparr>"

definition example_heap :: Heap where
  "example_heap =
     (\<lambda>a. plain_object)
       (2 := plain_object\<lparr>obj_map := 8, instance_type := JS_REGEXP_TYPE, last_index := Smi 5\<rparr>,
        3 := plain_object\<lparr>properties := [(lastIndex_string, HeapNumber 2147483648)]\<rparr>,
        4 := plain_object\<lparr>is_extensible := False\<rparr>,
        5 := plain_object\<lparr>elements :=
               [Smi 4, String [0x61, 0x62], String [0x61, 0x62], Smi 0, Smi 1, Smi (- 1), Smi (- 1)]\<rparr>,
        6 := plain_object\<lparr>instance_type := JS_PROXY_TYPE\<rparr>,
        10 := plain_object\<lparr>instance_type := JS_FUNCTION_TYPE, is_callable := True\<rparr>,
        11 := plain_object\<lparr>instance_type := JS_FUNCTION_TYPE, is_callable := True\<rparr>,
        12 := plain_object\<lparr>instance_type := JS_FUNCTION_TYPE, is_callable := True\<rparr>,
        13 := plain_object\<lparr>instance_type := JS_FUNCTION_TYPE, is_callable := True\<rparr>,
        14 := plain_object\<lparr>properties :=
                [(StringName (NewStringFromAsciiChecked ''exec''), JSReceiver 11)]\<rparr>,
        15 := plain_object\<lparr>properties := [(match_symbol, Smi 1)]\<rparr>,
        16 := plain_object\<lparr>properties := [(lastIndex_string, Smi 2147483647)]\<rparr>,
        17 := plain_object\<lparr>properties := [(lastIndex_string, Symbol 0)]\<rparr>,
        20 := plain_object\<lparr>instance_type := JS_FUNCTION_TYPE, is_callable := True\<rparr>,
        21 := plain_object\<lparr>obj_map := 7, instance_type := JS_REGEXP_TYPE, last_index := Smi 3\<rparr>)"

definition V8_RegExpImpl :: RegExpImpl where
  "V8_RegExpImpl = \<lparr>kLastCaptureCount = 0, kLastSubject = 1, kLastInput = 2, kFirstCapture = 3\<rparr>"

section \<open>Auxiliary facts\<close>

lemma wrap_int_id: "INT_MIN \<le> x \<Longrightarrow> x \<le> INT_MAX \<Longrightarrow> wrap_int x = x"
  by (simp add: wrap_int_def INT_MIN_def INT_MAX_def)

lemma AdvanceStringIndex_snd:
  "0 \<le> index \<Longrightarrow>
   snd (AdvanceStringIndex s index unicode) = Inr (AdvanceIndex_spec s index unicode)"
  by (auto simp: AdvanceStringIndex_def String_Get_def AdvanceIndex_spec_def surrogate_pair_at_def
      is_leading_surrogate_def is_trailing_surrogate_def)

lemma SetAdvancedStringIndex_not_a_Smi:
  assumes "GetProperty isolate heap (JSReceiver regexp) lastIndex_string = (Inr property, heap1)"
    and "ToLength isolate heap1 property = (Inr (HeapNumber x), heap2)"
  shows "SetAdvancedStringIndex isolate heap regexp string unicode =
           (Inl (Fatal (NotASmi (HeapNumber x))), heap2)"
  using assms by (simp add: SetAdvancedStringIndex_def Smi_value_def)

lemma SetAdvancedStringIndex_INT_MAX:
  assumes "GetProperty isolate heap (JSReceiver regexp) lastIndex_string = (Inr property, heap1)"
    and "ToLength isolate heap1 property = (Inr (Smi INT_MAX), heap2)"
  shows "SetAdvancedStringIndex isolate heap regexp string False =
           SetLastIndex isolate heap2 regexp INT_MIN"
  using assms
  by (simp add: SetAdvancedStringIndex_def Smi_value_def AdvanceStringIndex_def wrap_int_def
      INT_MAX_def INT_MIN_def)

lemma example_isolate_simps:
  "regexp_function_initial_map example_isolate = 7"
  "regexp_exec_function example_isolate = JSReceiver 20"
  "GetProperty example_isolate = example_GetProperty"
  "SetProperty example_isolate = example_SetProperty"
  "Execution_Call example_isolate = example_Call"
  "ToLength example_isolate = example_ToLength"
  "BooleanValue example_isolate = example_BooleanValue"
  "NewSubString example_isolate = example_NewSubString"
  by (simp_all add: example_isolate_def)

lemma example_heap_21:
  "example_heap 21 = plain_object\<lparr>obj_map := 7, instance_type := JS_REGEXP_TYPE, last_index := Smi 3\<rparr>"
  by (simp add: example_heap_def)

lemma example_heap_objects:
  "example_heap 2 = plain_object\<lparr>obj_map := 8, instance_type := JS_REGEXP_TYPE, last_index := Smi 5\<rparr>"
  "example_heap 3 = plain_object\<lparr>properties := [(lastIndex_string, HeapNumber 2147483648)]\<rparr>"
  "example_heap 4 = plain_object\<lparr>is_extensible := False\<rparr>"
  "example_heap 6 = plain_object\<lparr>instance_type := JS_PROXY_TYPE\<rparr>"
  "example_heap 11 = plain_object\<lparr>instance_type := JS_FUNCTION_TYPE, is_callable := True\<rparr>"
  "example_heap 14 = plain_object\<lparr>properties :=
     [(StringName (NewStringFromAsciiChecked ''exec''), JSReceiver 11)]\<rparr>"
  by (simp_all add: example_heap_def)

lemma example_heap_more:
  "example_heap 15 = plain_object\<lparr>properties := [(match_symbol, Smi 1)]\<rparr>"
  by (simp add: example_heap_def)

lemma example_heap_lengths:
  "example_heap 16 = plain_object\<lparr>properties := [(lastIndex_string, Smi 2147483647)]\<rparr>"
  "example_heap 17 = plain_object\<lparr>properties := [(lastIndex_string, Symbol 0)]\<rparr>"
  by (simp_all add: example_heap_def)

lemma example_heap_5:
  "elements (example_heap 5) =
     [Smi 4, String [0x61, 0x62], String [0x61, 0x62], Smi 0, Smi 1, Smi (- 1), Smi (- 1)]"
  by (simp add: example_heap_def)

lemma example_callables:
  "IsCallable example_heap (JSReceiver 10)"
  "IsCallable example_heap (JSReceiver 11)"
  "IsCallable example_heap (JSReceiver 12)"
  "IsCallable example_heap (JSReceiver 13)"
  "\<not> IsCallable example_heap (JSReceiver 3)"
  "\<not> IsCallable example_heap Undefined"
  by (simp_all add: IsCallable_def example_heap_def plain_object_def)

lemma example_regexps:
  "IsJSRegExp example_heap (JSReceiver 21)"
  "IsJSRegExp example_heap (JSReceiver 2)"
  "\<not> IsJSRegExp example_heap (JSReceiver 3)"
  "\<not> IsJSRegExp example_heap (JSReceiver 15)"
  by (simp_all add: IsJSRegExp_def example_heap_objects example_heap_21 example_heap_more
      plain_object_def)

lemma example_maps:
  "HasInitialRegExpMap example_isolate example_heap 21"
  "\<not> HasInitialRegExpMap example_isolate example_heap 2"
  "\<not> HasInitialRegExpMap example_isolate example_heap 3"
  "\<not> HasInitialRegExpMap example_isolate example_heap 4"
  "\<not> HasInitialRegExpMap example_isolate example_heap 6"
  "\<not> HasInitialRegExpMap example_isolate example_heap 15"
  by (simp_all add: HasInitialRegExpMap_def example_isolate_simps example_heap_objects
      example_heap_21 example_heap_more plain_object_def)

lemma example_exec_lookup:
  "example_GetProperty example_heap (JSReceiver 14) (StringName (NewStringFromAsciiChecked ''exec''))
     = (Inr (JSReceiver 11), example_heap)"
  "example_GetProperty example_heap (JSReceiver 3) (StringName (NewStringFromAsciiChecked ''exec''))
     = (Inr Undefined, example_heap)"
  "example_GetProperty example_heap (JSReceiver 21) (StringName (NewStringFromAsciiChecked ''exec''))
     = (Inr Undefined, example_heap)"
  "example_GetProperty example_heap (JSReceiver 6) (StringName (NewStringFromAsciiChecked ''exec''))
     = (Inl (Exception (Smi 99)), example_heap)"
  by (simp_all add: example_GetProperty_def example_heap_objects example_heap_21 plain_object_def
      lastIndex_string_def NewStringFromAsciiChecked_def)

lemma example_match_lookup:
  "example_GetProperty example_heap (JSReceiver 2) match_symbol = (Inr Undefined, example_heap)"
  "example_GetProperty example_heap (JSReceiver 3) match_symbol = (Inr Undefined, example_heap)"
  "example_GetProperty example_heap (JSReceiver 15) match_symbol = (Inr (Smi 1), example_heap)"
  "example_GetProperty example_heap (JSReceiver 6) match_symbol = (Inl (Exception (Smi 99)), example_heap)"
  by (simp_all add: example_GetProperty_def example_heap_objects example_heap_more plain_object_def
      lastIndex_string_def)

lemma example_lastIndex_access:
  "example_GetProperty example_heap (JSReceiver 2) lastIndex_string = (Inr (Smi 5), example_heap)"
  "example_GetProperty example_heap (JSReceiver 6) lastIndex_string =
     (Inl (Exception (Smi 99)), example_heap)"
  "example_SetProperty example_heap (JSReceiver 4) lastIndex_string (Smi 9) STRICT =
     (Inl (Exception (Smi 98)), example_heap)"
  "example_SetProperty example_heap (JSReceiver 4) lastIndex_string (Smi 9) SLOPPY =
     (Inr (Smi 9), example_heap)"
  "example_SetProperty example_heap (JSReceiver 6) lastIndex_string (Smi 9) STRICT =
     (Inl (Exception (Smi 99)), example_heap)"
  by (simp_all add: example_GetProperty_def example_SetProperty_def example_heap_objects
      plain_object_def)

lemma example_lastIndex_read:
  "example_GetProperty example_heap (JSReceiver 21) lastIndex_string = (Inr (Smi 3), example_heap)"
  "example_GetProperty example_heap (JSReceiver 3) lastIndex_string =
     (Inr (HeapNumber 2147483648), example_heap)"
  "example_GetProperty example_heap (JSReceiver 16) lastIndex_string =
     (Inr (Smi 2147483647), example_heap)"
  "example_GetProperty example_heap (JSReceiver 17) lastIndex_string =
     (Inr (Symbol 0), example_heap)"
  by (simp_all add: example_GetProperty_def example_heap_objects example_heap_21
      example_heap_lengths plain_object_def)

lemma example_ToLength_values:
  "example_ToLength h (Smi 3) = (Inr (Smi 3), h)"
  "example_ToLength h (Smi 5) = (Inr (Smi 5), h)"
  "example_ToLength h (Smi 2147483647) = (Inr (Smi 2147483647), h)"
  "example_ToLength h (HeapNumber 2147483648) = (Inr (HeapNumber 2147483648), h)"
  "example_ToLength h (Symbol 0) = (Inl (Exception (Smi 95)), h)"
  by (simp_all add: example_ToLength_def)

lemma example_pair:
  "AdvanceIndex_spec [0x61, 0x61, 0x61, 0xD834, 0xDF06] 3 True = 2"
  "AdvanceIndex_spec [0x61, 0x61, 0x61, 0xD834, 0xDF06] 3 False = 1"
  "AdvanceIndex_spec [0x61] 5 True = 1"
  by (simp_all add: AdvanceIndex_spec_def surrogate_pair_at_def String_length_def
      is_leading_surrogate_def is_trailing_surrogate_def)

lemma example_store_2:
  "example_SetProperty example_heap (JSReceiver 2) lastIndex_string (Smi 6) STRICT =
     (Inr (Smi 6), example_heap(2 := (example_heap 2)\<lparr>last_index := Smi 6\<rparr>))"
  by (simp add: example_SetProperty_def example_heap_objects plain_object_def)

lemma example_fast_advance:
  "SetAdvancedStringIndex example_isolate example_heap 21 [0x61] False =
     (Inr (JSReceiver 21), example_heap(21 := (example_heap 21)\<lparr>last_index := Smi 4\<rparr>))"
  by (simp add: SetAdvancedStringIndex_def example_isolate_simps example_lastIndex_read
      example_ToLength_values Smi_value_def AdvanceStringIndex_def SetLastIndex_def example_maps
      JSRegExp_SetLastIndex_def wrap_int_def)

lemma example_GetProperty_heap: "snd (example_GetProperty h obj name) = h"
  by (simp add: example_GetProperty_def split: Object.split option.split)

lemma example_Call_map: "obj_map (snd (example_Call h callee recv args) a) = obj_map (h a)"
  by (simp add: example_Call_def split: Object.split)

lemma example_builtin_exec:
  "example_Call example_heap (JSReceiver 20) (JSReceiver 21) [String [0x61]] =
     (Inr (JSReceiver 5), example_heap(21 := (example_heap 21)\<lparr>last_index := Smi 1\<rparr>))"
  by (simp add: example_Call_def)

lemma example_match_info:
  "GetLastMatchNumberOfCaptures V8_RegExpImpl example_heap 5 = Inr 4"
  "GetLastMatchSubject V8_RegExpImpl example_heap 5 = Inr [0x61, 0x62]"
  "GetLastMatchCapture V8_RegExpImpl example_heap 5 0 = Inr 0"
  "GetLastMatchCapture V8_RegExpImpl example_heap 5 1 = Inr 1"
  "GetLastMatchCapture V8_RegExpImpl example_heap 5 2 = Inr (- 1)"
  "GetLastMatchCapture V8_RegExpImpl example_heap 5 3 = Inr (- 1)"
  by (simp_all add: GetLastMatchNumberOfCaptures_def GetLastMatchSubject_def
      GetLastMatchCapture_def GetLastMatchField_def GetElement_def V8_RegExpImpl_def
      example_heap_5 Smi_value_def String_cast_def wrap_int_def)

lemma example_capture_wrapped:
  "GetLastMatchCapture V8_RegExpImpl example_heap 5 (- 2147483648) = Inl (Fatal (NotASmi Undefined))"
  by (simp add: GetLastMatchCapture_def GetLastMatchField_def GetElement_def V8_RegExpImpl_def
      example_heap_5 Smi_value_def wrap_int_def)

lemma example_capture_negative:
  "GetLastMatchCapture V8_RegExpImpl example_heap 5 (- 2) =
     Inl (Fatal (NotASmi (String [0x61, 0x62])))"
  by (simp add: GetLastMatchCapture_def GetLastMatchField_def GetElement_def V8_RegExpImpl_def
      example_heap_5 Smi_value_def wrap_int_def)

lemma reads_example:
  "fst (AdvanceStringIndex [0x61, 0xD834, 0xDF06, 0x62] 1 True) = [1, 2]"
  by (simp add: AdvanceStringIndex_def String_Get_def String_length_def)

section \<open>RegExpExec with a callable exec\<close>

text \<open>
  C1. Let the resolved exec value be the override, or the \<^verbatim>\<open>exec\<close> property of the
  receiver when the override is undefined, and let it be callable. \<open>RegExpExec\<close> calls it
  on the receiver with the string as its one argument. A result that is neither a
  \<^verbatim>\<open>JSReceiver\<close> nor null is the error \<open>kInvalidRegExpExecResult\<close>; a \<^verbatim>\<open>JSReceiver\<close>
  or null is returned as it is; an exception of the call is returned as it is.
\<close>

theorem RegExpExec_callable:
  assumes "(if IsUndefined exec
            then GetProperty isolate heap (JSReceiver regexp)
                   (StringName (NewStringFromAsciiChecked ''exec''))
            else (Inr exec, heap)) = (Inr exec1, heap1)"
    and "IsCallable heap1 exec1"
  shows
    "(\<forall>result heap2.
        Execution_Call isolate heap1 exec1 (JSReceiver regexp) [String string] = (Inr result, heap2) \<and>
        \<not> IsJSReceiver result \<and> \<not> IsNull result \<longrightarrow>
        RegExpExec isolate heap regexp string exec =
          (Inl (NewTypeError kInvalidRegExpExecResult []), heap2)) \<and>
     (\<forall>result heap2.
        Execution_Call isolate heap1 exec1 (JSReceiver regexp) [String string] = (Inr result, heap2) \<and>
        (IsJSReceiver result \<or> IsNull result) \<longrightarrow>
        RegExpExec isolate heap regexp string exec = (Inr result, heap2)) \<and>
     (\<forall>e heap2.
        Execution_Call isolate heap1 exec1 (JSReceiver regexp) [String string] = (Inl e, heap2) \<longrightarrow>
        RegExpExec isolate heap regexp string exec = (Inl e, heap2))"
  using assms by (auto simp: RegExpExec_def)

text \<open>
  On the example heap: an override that returns the number 7, the same function found as
  the \<^verbatim>\<open>exec\<close> property, one that returns null, one that returns an object and one
  that throws.
\<close>

theorem RegExpExec_callable_witness:
  "IsCallable example_heap (JSReceiver 11) \<and>
   RegExpExec example_isolate example_heap 3 [0x61] (JSReceiver 11) =
     (Inl (NewTypeError kInvalidRegExpExecResult []), example_heap) \<and>
   RegExpExec example_isolate example_heap 14 [0x61] Undefined =
     (Inl (NewTypeError kInvalidRegExpExecResult []), example_heap) \<and>
   RegExpExec example_isolate example_heap 3 [0x61] (JSReceiver 10) = (Inr Null, example_heap) \<and>
   RegExpExec example_isolate example_heap 3 [0x61] (JSReceiver 13) =
     (Inr (JSReceiver 3), example_heap) \<and>
   RegExpExec example_isolate example_heap 3 [0x61] (JSReceiver 12) =
     (Inl (Exception (Smi 97)), example_heap)"
  using RegExpExec_callable [of "JSReceiver 11" example_isolate example_heap 3 "JSReceiver 11"
      example_heap "[0x61]"]
    RegExpExec_callable [of Undefined example_isolate example_heap 14 "JSReceiver 11"
      example_heap "[0x61]"]
    RegExpExec_callable [of "JSReceiver 10" example_isolate example_heap 3 "JSReceiver 10"
      example_heap "[0x61]"]
    RegExpExec_callable [of "JSReceiver 13" example_isolate example_heap 3 "JSReceiver 13"
      example_heap "[0x61]"]
    RegExpExec_callable [of "JSReceiver 12" example_isolate example_heap 3 "JSReceiver 12"
      example_heap "[0x61]"]
  by (simp add: example_callables example_isolate_simps example_exec_lookup example_Call_def
      IsUndefined_def IsJSReceiver_def IsNull_def)

section \<open>RegExpExec without a callable exec\<close>

text \<open>
  C2. When the resolved exec value is not callable, a receiver that is not a
  \<^verbatim>\<open>JSRegExp\<close> is the error \<open>kIncompatibleMethodReceiver\<close>, which names
  \<^verbatim>\<open>RegExp.prototype.exec\<close> and the receiver; on a \<^verbatim>\<open>JSRegExp\<close> the built-in exec
  function is called on the receiver and the string, and its result or exception is the
  result.
\<close>

theorem RegExpExec_not_callable:
  assumes "(if IsUndefined exec
            then GetProperty isolate heap (JSReceiver regexp)
                   (StringName (NewStringFromAsciiChecked ''exec''))
            else (Inr exec, heap)) = (Inr exec1, heap1)"
    and "\<not> IsCallable heap1 exec1"
  shows
    "(\<not> IsJSRegExp heap1 (JSReceiver regexp) \<longrightarrow>
        RegExpExec isolate heap regexp string exec =
          (Inl (NewTypeError kIncompatibleMethodReceiver
                  [String (NewStringFromAsciiChecked ''RegExp.prototype.exec''),
                   JSReceiver regexp]),
           heap1)) \<and>
     (IsJSRegExp heap1 (JSReceiver regexp) \<longrightarrow>
        RegExpExec isolate heap regexp string exec =
          Execution_Call isolate heap1 (regexp_exec_function isolate) (JSReceiver regexp)
            [String string])"
  using assms by (auto simp: RegExpExec_def)

text \<open>
  A plain object without an \<^verbatim>\<open>exec\<close> property, the same object with the override 5,
  and an unmodified regular expression.
\<close>

theorem RegExpExec_not_callable_witness:
  "\<not> IsCallable example_heap Undefined \<and>
   \<not> IsJSRegExp example_heap (JSReceiver 3) \<and>
   RegExpExec example_isolate example_heap 3 [0x61] Undefined =
     (Inl (NewTypeError kIncompatibleMethodReceiver
             [String (NewStringFromAsciiChecked ''RegExp.prototype.exec''), JSReceiver 3]),
      example_heap) \<and>
   RegExpExec example_isolate example_heap 3 [0x61] (Smi 5) =
     (Inl (NewTypeError kIncompatibleMethodReceiver
             [String (NewStringFromAsciiChecked ''RegExp.prototype.exec''), JSReceiver 3]),
      example_heap) \<and>
   IsJSRegExp example_heap (JSReceiver 21) \<and>
   RegExpExec example_isolate example_heap 21 [0x61] Undefined =
     example_Call example_heap (JSReceiver 20) (JSReceiver 21) [String [0x61]]"
  using RegExpExec_not_callable [of Undefined example_isolate example_heap 3 Undefined
      example_heap "[0x61]"]
    RegExpExec_not_callable [of "Smi 5" example_isolate example_heap 3 "Smi 5"
      example_heap "[0x61]"]
    RegExpExec_not_callable [of Undefined example_isolate example_heap 21 Undefined
      example_heap "[0x61]"]
  by (simp add: example_callables example_regexps example_isolate_simps example_exec_lookup
      IsUndefined_def IsCallable_def)

section \<open>SetAdvancedStringIndex\<close>

text \<open>
  On an unmodified regular expression whose \<^verbatim>\<open>lastIndex\<close> is 3 the call stores 4 and
  returns the receiver, not the number 4.
\<close>

theorem SetAdvancedStringIndex_returns_receiver:
  "fst (SetAdvancedStringIndex example_isolate example_heap 21 [0x61] False) = Inr (JSReceiver 21) \<and>
   last_index (snd (SetAdvancedStringIndex example_isolate example_heap 21 [0x61] False) 21) = Smi 4 \<and>
   fst (SetAdvancedStringIndex example_isolate example_heap 21 [0x61] False) \<noteq> Inr (Smi 4)"
  by (simp add: example_fast_advance)

text \<open>
  C3, amended. \<open>SetAdvancedStringIndex\<close> reads \<^verbatim>\<open>lastIndex\<close> with the generic property
  get, for every receiver, and coerces it with \<open>ToLength\<close>; an exception of either is
  returned as it is. When the coerced value is a small integer \<open>k\<close> and \<open>k\<close> plus the
  increment does not exceed \<open>INT_MAX\<close>, it stores \<open>k\<close> plus the increment with
  \<open>SetLastIndex\<close> and returns what \<open>SetLastIndex\<close> returns: the receiver itself for an
  unmodified regular expression, whose slot then holds the new index, and the result of the
  strict property set otherwise. The increment is 1 outside full-Unicode mode and 2 in
  full-Unicode mode on a surrogate pair at \<open>k\<close>.
\<close>

theorem SetAdvancedStringIndex_steps:
  "(\<forall>e heap1.
      GetProperty isolate heap (JSReceiver regexp) lastIndex_string = (Inl e, heap1) \<longrightarrow>
      SetAdvancedStringIndex isolate heap regexp string unicode = (Inl e, heap1)) \<and>
   (\<forall>property heap1 e heap2.
      GetProperty isolate heap (JSReceiver regexp) lastIndex_string = (Inr property, heap1) \<and>
      ToLength isolate heap1 property = (Inl e, heap2) \<longrightarrow>
      SetAdvancedStringIndex isolate heap regexp string unicode = (Inl e, heap2)) \<and>
   (\<forall>property heap1 k heap2.
      GetProperty isolate heap (JSReceiver regexp) lastIndex_string = (Inr property, heap1) \<and>
      ToLength isolate heap1 property = (Inr (Smi k), heap2) \<and>
      0 \<le> k \<and> k + AdvanceIndex_spec string k unicode \<le> INT_MAX \<longrightarrow>
      SetAdvancedStringIndex isolate heap regexp string unicode =
        SetLastIndex isolate heap2 regexp (k + AdvanceIndex_spec string k unicode) \<and>
      (HasInitialRegExpMap isolate heap2 regexp \<longrightarrow>
         SetAdvancedStringIndex isolate heap regexp string unicode =
           (Inr (JSReceiver regexp),
            heap2(regexp := (heap2 regexp)\<lparr>last_index := Smi (k + AdvanceIndex_spec string k unicode)\<rparr>))) \<and>
      (\<not> HasInitialRegExpMap isolate heap2 regexp \<longrightarrow>
         SetAdvancedStringIndex isolate heap regexp string unicode =
           SetProperty isolate heap2 (JSReceiver regexp) lastIndex_string
             (Smi (k + AdvanceIndex_spec string k unicode)) STRICT))"
proof -
  have in_range: "wrap_int (k + AdvanceIndex_spec string k unicode) = k + AdvanceIndex_spec string k unicode"
    if "0 \<le> k" "k + AdvanceIndex_spec string k unicode \<le> INT_MAX" for k
    using that by (intro wrap_int_id) (auto simp: INT_MIN_def AdvanceIndex_spec_def)
  show ?thesis
    by (auto simp: SetAdvancedStringIndex_def Smi_value_def AdvanceStringIndex_snd in_range
        SetLastIndex_def JSRegExp_SetLastIndex_def)
qed

text \<open>
  An unmodified regular expression at index 3, in front of a surrogate pair, in both modes;
  a regular expression with a changed map; a proxy, whose property get throws; and an
  object whose \<^verbatim>\<open>lastIndex\<close> is a symbol, on which \<open>ToLength\<close> throws.
\<close>

theorem SetAdvancedStringIndex_steps_witness:
  "SetAdvancedStringIndex example_isolate example_heap 21 [0x61, 0x61, 0x61, 0xD834, 0xDF06] True =
     (Inr (JSReceiver 21), example_heap(21 := (example_heap 21)\<lparr>last_index := Smi 5\<rparr>)) \<and>
   SetAdvancedStringIndex example_isolate example_heap 21 [0x61, 0x61, 0x61, 0xD834, 0xDF06] False =
     (Inr (JSReceiver 21), example_heap(21 := (example_heap 21)\<lparr>last_index := Smi 4\<rparr>)) \<and>
   SetAdvancedStringIndex example_isolate example_heap 2 [0x61] True =
     (Inr (Smi 6), example_heap(2 := (example_heap 2)\<lparr>last_index := Smi 6\<rparr>)) \<and>
   SetAdvancedStringIndex example_isolate example_heap 6 [0x61] True =
     (Inl (Exception (Smi 99)), example_heap) \<and>
   SetAdvancedStringIndex example_isolate example_heap 17 [0x61] True =
     (Inl (Exception (Smi 95)), example_heap)"
  using SetAdvancedStringIndex_steps [of example_isolate example_heap 21
      "[0x61, 0x61, 0x61, 0xD834, 0xDF06]" True]
    SetAdvancedStringIndex_steps [of example_isolate example_heap 21
      "[0x61, 0x61, 0x61, 0xD834, 0xDF06]" False]
    SetAdvancedStringIndex_steps [of example_isolate example_heap 2 "[0x61]" True]
    SetAdvancedStringIndex_steps [of example_isolate example_heap 6 "[0x61]" True]
    SetAdvancedStringIndex_steps [of example_isolate example_heap 17 "[0x61]" True]
  by (simp add: example_isolate_simps example_lastIndex_read example_lastIndex_access
      example_ToLength_values example_pair example_maps example_store_2 INT_MAX_def
      SetLastIndex_def JSRegExp_SetLastIndex_def)

section \<open>AdvanceStringIndex\<close>

text \<open>
  In full-Unicode mode a negative index passes the guard \<^verbatim>\<open>index < string->length()\<close>,
  and the code unit at position \<open>-1\<close> is read.
\<close>

theorem AdvanceStringIndex_negative_index:
  "snd (AdvanceStringIndex [0x41] (- 1) True) = Inl (Fatal (StringIndexOutOfRange (- 1))) \<and>
   snd (AdvanceStringIndex [0x41] (- 1) True) \<noteq> Inr 1 \<and>
   snd (AdvanceStringIndex [0x41] (- 1) True) \<noteq> Inr 2"
  by (simp add: AdvanceStringIndex_def String_Get_def String_length_def)

text \<open>
  C4, amended. For every string, every index that is not negative and every mode,
  \<open>AdvanceStringIndex\<close> returns 1 or 2 and does not fail. It returns 2 exactly when the
  mode is full Unicode, the index is before the end of the string, the code unit at the
  index is a leading surrogate, a code unit follows, and that one is a trailing surrogate.
\<close>

theorem AdvanceStringIndex_increment:
  assumes "0 \<le> index"
  shows "snd (AdvanceStringIndex s index unicode) =
           Inr (if unicode \<and> index < String_length s \<and> is_leading_surrogate (s ! nat index) \<and>
                   index + 1 < String_length s \<and> is_trailing_surrogate (s ! nat (index + 1))
                then 2 else 1)"
  using assms
  by (auto simp: AdvanceStringIndex_def String_Get_def is_leading_surrogate_def is_trailing_surrogate_def)

text \<open>
  The string \<^verbatim>\<open>a\<close>, U+1D306, \<^verbatim>\<open>b\<close> at the pair, before it and outside full-Unicode
  mode; a lone leading surrogate at the end of a string; an index at the end.
\<close>

theorem AdvanceStringIndex_increment_witness:
  "(0::int) \<le> 1 \<and>
   snd (AdvanceStringIndex [0x61, 0xD834, 0xDF06, 0x62] 1 True) = Inr 2 \<and>
   snd (AdvanceStringIndex [0x61, 0xD834, 0xDF06, 0x62] 0 True) = Inr 1 \<and>
   snd (AdvanceStringIndex [0x61, 0xD834, 0xDF06, 0x62] 1 False) = Inr 1 \<and>
   snd (AdvanceStringIndex [0x61, 0xD834] 1 True) = Inr 1 \<and>
   snd (AdvanceStringIndex [0x61, 0xD834] 2 True) = Inr 1"
  using AdvanceStringIndex_increment [of 1 "[0x61, 0xD834, 0xDF06, 0x62]" True]
    AdvanceStringIndex_increment [of 0 "[0x61, 0xD834, 0xDF06, 0x62]" True]
    AdvanceStringIndex_increment [of 1 "[0x61, 0xD834, 0xDF06, 0x62]" False]
    AdvanceStringIndex_increment [of 1 "[0x61, 0xD834]" True]
    AdvanceStringIndex_increment [of 2 "[0x61, 0xD834]" True]
  by (simp add: String_length_def is_leading_surrogate_def is_trailing_surrogate_def)

section \<open>GenericCaptureGetter\<close>

text \<open>
  The index is computed as \<^verbatim>\<open>capture * 2\<close> in \<^verbatim>\<open>int\<close>, and only its upper end is
  checked. For the group index \<open>2^30\<close> the product wraps to \<open>INT_MIN\<close>, which is below
  the capture count 4, and the buffer is read at a field that is not there. For the group
  index \<open>-1\<close> the index \<open>-2\<close> is below the capture count as well, and the field read as
  the start of the capture is the subject, which is no small integer.
\<close>

theorem GenericCaptureGetter_overflow:
  "GetLastMatchNumberOfCaptures V8_RegExpImpl example_heap 5 = Inr 4 \<and>
   (1073741824::int) * 2 \<ge> 4 \<and>
   GenericCaptureGetter V8_RegExpImpl example_isolate example_heap 5 1073741824 (Some True) =
     Inl (Fatal (NotASmi Undefined)) \<and>
   GenericCaptureGetter V8_RegExpImpl example_isolate example_heap 5 1073741824 (Some True) \<noteq>
     Inr (empty_string, Some False) \<and>
   GenericCaptureGetter V8_RegExpImpl example_isolate example_heap 5 (- 1) (Some True) =
     Inl (Fatal (NotASmi (String [0x61, 0x62])))"
  by (simp add: GenericCaptureGetter_def example_match_info wrap_int_def example_capture_wrapped
      example_capture_negative)

text \<open>
  C5, amended. For every group index \<open>i\<close> with \<open>0 \<le> i\<close> whose double does not exceed
  \<open>INT_MAX\<close>, with \<open>n\<close> the capture count: when the doubled index is at least \<open>n\<close> the
  result is the empty string and \<open>false\<close>. Otherwise, with \<open>match_start\<close> and
  \<open>match_end\<close> the captures at the doubled index and the one after it, the result is the
  empty string and \<open>false\<close> when either is \<open>-1\<close>, and otherwise the substring that
  \<^verbatim>\<open>NewSubString\<close> makes of the subject, \<open>match_start\<close> and \<open>match_end\<close>, and
  \<open>true\<close>. The flag is stored through \<open>ok\<close> when that is not the null pointer. On a
  buffer that holds what its layout says (an even capture count, a small integer in each
  capture field below the count, a string as the subject) one of these cases applies: the
  function does not fail.
\<close>

theorem GenericCaptureGetter_cases:
  assumes "0 \<le> capture" and "capture * 2 \<le> INT_MAX"
    and "GetLastMatchNumberOfCaptures impl heap match_info = Inr n"
  shows
    "(capture * 2 \<ge> n \<longrightarrow>
        GenericCaptureGetter impl isolate heap match_info capture ok =
          Inr (empty_string, store_ok ok False)) \<and>
     (\<forall>match_start match_end.
        capture * 2 < n \<and>
        GetLastMatchCapture impl heap match_info (capture * 2) = Inr match_start \<and>
        GetLastMatchCapture impl heap match_info (capture * 2 + 1) = Inr match_end \<and>
        (match_start = - 1 \<or> match_end = - 1) \<longrightarrow>
        GenericCaptureGetter impl isolate heap match_info capture ok =
          Inr (empty_string, store_ok ok False)) \<and>
     (\<forall>match_start match_end subject.
        capture * 2 < n \<and>
        GetLastMatchCapture impl heap match_info (capture * 2) = Inr match_start \<and>
        GetLastMatchCapture impl heap match_info (capture * 2 + 1) = Inr match_end \<and>
        match_start \<noteq> - 1 \<and> match_end \<noteq> - 1 \<and>
        GetLastMatchSubject impl heap match_info = Inr subject \<longrightarrow>
        GenericCaptureGetter impl isolate heap match_info capture ok =
          Inr (NewSubString isolate subject match_start match_end, store_ok ok True)) \<and>
     (even n \<and>
      (\<forall>j. 0 \<le> j \<and> j < n \<longrightarrow> (\<exists>v. GetLastMatchCapture impl heap match_info j = Inr v)) \<and>
      (\<exists>subject. GetLastMatchSubject impl heap match_info = Inr subject) \<longrightarrow>
      (\<exists>match_start match_end subject.
         (capture * 2 < n \<longrightarrow>
            GetLastMatchCapture impl heap match_info (capture * 2) = Inr match_start \<and>
            GetLastMatchCapture impl heap match_info (capture * 2 + 1) = Inr match_end) \<and>
         GetLastMatchSubject impl heap match_info = Inr subject \<and>
         GenericCaptureGetter impl isolate heap match_info capture ok =
           (if capture * 2 \<ge> n \<or> match_start = - 1 \<or> match_end = - 1
            then Inr (empty_string, store_ok ok False)
            else Inr (NewSubString isolate subject match_start match_end, store_ok ok True))))"
proof -
  have index: "wrap_int (capture * 2) = capture * 2"
    using assms(1,2) by (intro wrap_int_id) (simp_all add: INT_MIN_def)
  have total: "\<exists>match_start match_end subject.
         (capture * 2 < n \<longrightarrow>
            GetLastMatchCapture impl heap match_info (capture * 2) = Inr match_start \<and>
            GetLastMatchCapture impl heap match_info (capture * 2 + 1) = Inr match_end) \<and>
         GetLastMatchSubject impl heap match_info = Inr subject \<and>
         GenericCaptureGetter impl isolate heap match_info capture ok =
           (if capture * 2 \<ge> n \<or> match_start = - 1 \<or> match_end = - 1
            then Inr (empty_string, store_ok ok False)
            else Inr (NewSubString isolate subject match_start match_end, store_ok ok True))"
    if below: "capture * 2 < n" and "even n"
      and fields: "\<forall>j. 0 \<le> j \<and> j < n \<longrightarrow> (\<exists>v. GetLastMatchCapture impl heap match_info j = Inr v)"
      and subj: "\<exists>subject. GetLastMatchSubject impl heap match_info = Inr subject"
  proof -
    from below \<open>even n\<close> have next_below: "capture * 2 + 1 < n"
      by presburger
    from fields assms(1) below obtain match_start where
      s: "GetLastMatchCapture impl heap match_info (capture * 2) = Inr match_start"
      by (metis mult_nonneg_nonneg zero_le_numeral)
    from fields assms(1) next_below obtain match_end where
      e: "GetLastMatchCapture impl heap match_info (capture * 2 + 1) = Inr match_end"
      by (metis add_nonneg_nonneg mult_nonneg_nonneg zero_le_numeral zero_le_one)
    from subj obtain subject where
      u: "GetLastMatchSubject impl heap match_info = Inr subject"
      by blast
    have "GenericCaptureGetter impl isolate heap match_info capture ok =
           (if capture * 2 \<ge> n \<or> match_start = - 1 \<or> match_end = - 1
            then Inr (empty_string, store_ok ok False)
            else Inr (NewSubString isolate subject match_start match_end, store_ok ok True))"
      using below assms(3) s e u by (simp add: GenericCaptureGetter_def index)
    with s e u show ?thesis by blast
  qed
  have out_of_range: "capture * 2 \<ge> n \<longrightarrow>
        GenericCaptureGetter impl isolate heap match_info capture ok =
          Inr (empty_string, store_ok ok False)"
    using assms(3) by (simp add: GenericCaptureGetter_def index)
  have sentinel: "\<forall>match_start match_end.
        capture * 2 < n \<and>
        GetLastMatchCapture impl heap match_info (capture * 2) = Inr match_start \<and>
        GetLastMatchCapture impl heap match_info (capture * 2 + 1) = Inr match_end \<and>
        (match_start = - 1 \<or> match_end = - 1) \<longrightarrow>
        GenericCaptureGetter impl isolate heap match_info capture ok =
          Inr (empty_string, store_ok ok False)"
    using assms(3) by (auto simp: GenericCaptureGetter_def index)
  have matched: "\<forall>match_start match_end subject.
        capture * 2 < n \<and>
        GetLastMatchCapture impl heap match_info (capture * 2) = Inr match_start \<and>
        GetLastMatchCapture impl heap match_info (capture * 2 + 1) = Inr match_end \<and>
        match_start \<noteq> - 1 \<and> match_end \<noteq> - 1 \<and>
        GetLastMatchSubject impl heap match_info = Inr subject \<longrightarrow>
        GenericCaptureGetter impl isolate heap match_info capture ok =
          Inr (NewSubString isolate subject match_start match_end, store_ok ok True)"
    using assms(3) by (auto simp: GenericCaptureGetter_def index)
  have well_formed: "even n \<and>
      (\<forall>j. 0 \<le> j \<and> j < n \<longrightarrow> (\<exists>v. GetLastMatchCapture impl heap match_info j = Inr v)) \<and>
      (\<exists>subject. GetLastMatchSubject impl heap match_info = Inr subject) \<longrightarrow>
      (\<exists>match_start match_end subject.
         (capture * 2 < n \<longrightarrow>
            GetLastMatchCapture impl heap match_info (capture * 2) = Inr match_start \<and>
            GetLastMatchCapture impl heap match_info (capture * 2 + 1) = Inr match_end) \<and>
         GetLastMatchSubject impl heap match_info = Inr subject \<and>
         GenericCaptureGetter impl isolate heap match_info capture ok =
           (if capture * 2 \<ge> n \<or> match_start = - 1 \<or> match_end = - 1
            then Inr (empty_string, store_ok ok False)
            else Inr (NewSubString isolate subject match_start match_end, store_ok ok True)))"
  proof (intro impI, elim conjE)
    assume "even n"
      and fields: "\<forall>j. 0 \<le> j \<and> j < n \<longrightarrow> (\<exists>v. GetLastMatchCapture impl heap match_info j = Inr v)"
      and subj: "\<exists>subject. GetLastMatchSubject impl heap match_info = Inr subject"
    show "\<exists>match_start match_end subject.
         (capture * 2 < n \<longrightarrow>
            GetLastMatchCapture impl heap match_info (capture * 2) = Inr match_start \<and>
            GetLastMatchCapture impl heap match_info (capture * 2 + 1) = Inr match_end) \<and>
         GetLastMatchSubject impl heap match_info = Inr subject \<and>
         GenericCaptureGetter impl isolate heap match_info capture ok =
           (if capture * 2 \<ge> n \<or> match_start = - 1 \<or> match_end = - 1
            then Inr (empty_string, store_ok ok False)
            else Inr (NewSubString isolate subject match_start match_end, store_ok ok True))"
    proof (cases "capture * 2 < n")
      case True
      then show ?thesis using \<open>even n\<close> fields subj by (rule total)
    next
      case False
      from subj obtain subject where
        "GetLastMatchSubject impl heap match_info = Inr subject" by blast
      with False out_of_range show ?thesis by auto
    qed
  qed
  from out_of_range sentinel matched well_formed show ?thesis
    by (intro conjI)
qed

text \<open>
  The buffer with capture count 4 and the captures \<open>0, 1, -1, -1\<close> over the subject
  \<^verbatim>\<open>ab\<close>: group 0 matched, group 1 did not take part, group 2 does not exist.
\<close>

theorem GenericCaptureGetter_cases_witness:
  "GenericCaptureGetter V8_RegExpImpl example_isolate example_heap 5 0 (Some False) = Inr ([0x61], Some True) \<and>
   GenericCaptureGetter V8_RegExpImpl example_isolate example_heap 5 1 (Some True) = Inr ([], Some False) \<and>
   GenericCaptureGetter V8_RegExpImpl example_isolate example_heap 5 2 (Some True) = Inr ([], Some False)"
  using GenericCaptureGetter_cases [of 0 V8_RegExpImpl example_heap 5 4 example_isolate "Some False"]
    GenericCaptureGetter_cases [of 1 V8_RegExpImpl example_heap 5 4 example_isolate "Some True"]
    GenericCaptureGetter_cases [of 2 V8_RegExpImpl example_heap 5 4 example_isolate "Some True"]
  by (simp add: example_match_info INT_MAX_def example_isolate_simps
      example_NewSubString_def store_ok_def empty_string_def)

section \<open>IsRegExp\<close>

text \<open>
  C6. \<open>IsRegExp\<close> is false on a value that is not a \<^verbatim>\<open>JSReceiver\<close>. On a receiver with
  the initial map of the \<^verbatim>\<open>RegExp\<close> function it is true, whatever the property lookup
  would do, and the heap is untouched. Otherwise the match symbol is looked up: an
  exception is returned as it is; a value that is not undefined gives its truth value;
  undefined gives whether the object is a \<^verbatim>\<open>JSRegExp\<close>.
\<close>

theorem IsRegExp_cases:
  "(\<not> IsJSReceiver object \<longrightarrow> IsRegExp isolate heap object = (Inr False, heap)) \<and>
   (\<forall>receiver. object = JSReceiver receiver \<longrightarrow>
      (HasInitialRegExpMap isolate heap receiver \<longrightarrow>
         (\<forall>lookup. IsRegExp (isolate\<lparr>GetProperty := lookup\<rparr>) heap object = (Inr True, heap))) \<and>
      (\<not> HasInitialRegExpMap isolate heap receiver \<longrightarrow>
         (\<forall>e heap1.
            GetProperty isolate heap object match_symbol = (Inl e, heap1) \<longrightarrow>
            IsRegExp isolate heap object = (Inl e, heap1)) \<and>
         (\<forall>match heap1.
            GetProperty isolate heap object match_symbol = (Inr match, heap1) \<and>
            \<not> IsUndefined match \<longrightarrow>
            IsRegExp isolate heap object = (Inr (BooleanValue isolate heap1 match), heap1)) \<and>
         (\<forall>match heap1.
            GetProperty isolate heap object match_symbol = (Inr match, heap1) \<and>
            IsUndefined match \<longrightarrow>
            IsRegExp isolate heap object = (Inr (IsJSRegExp heap1 object), heap1))))"
  by (cases object) (auto simp: IsRegExp_def IsJSReceiver_def HasInitialRegExpMap_def)

text \<open>
  A number; an unmodified regular expression, also under a lookup that always throws; a
  regular expression with a changed map; a plain object; an object whose match property
  is 1; a proxy.
\<close>

theorem IsRegExp_cases_witness:
  "IsRegExp example_isolate example_heap (Smi 4) = (Inr False, example_heap) \<and>
   IsRegExp example_isolate example_heap (JSReceiver 21) = (Inr True, example_heap) \<and>
   IsRegExp (example_isolate\<lparr>GetProperty := \<lambda>h obj name. (Inl (Exception Null), h)\<rparr>)
     example_heap (JSReceiver 21) = (Inr True, example_heap) \<and>
   IsRegExp example_isolate example_heap (JSReceiver 2) = (Inr True, example_heap) \<and>
   IsRegExp example_isolate example_heap (JSReceiver 3) = (Inr False, example_heap) \<and>
   IsRegExp example_isolate example_heap (JSReceiver 15) = (Inr True, example_heap) \<and>
   IsRegExp example_isolate example_heap (JSReceiver 6) = (Inl (Exception (Smi 99)), example_heap)"
proof -
  have same: "example_isolate\<lparr>GetProperty := example_GetProperty\<rparr> = example_isolate"
    by (simp add: example_isolate_def)
  have fast: "\<forall>lookup. IsRegExp (example_isolate\<lparr>GetProperty := lookup\<rparr>) example_heap
                (JSReceiver 21) = (Inr True, example_heap)"
    using IsRegExp_cases [of "JSReceiver 21" example_isolate example_heap]
    by (simp add: example_maps)
  have a: "IsRegExp example_isolate example_heap (JSReceiver 21) = (Inr True, example_heap)"
    using fast [rule_format, of example_GetProperty] same by simp
  have b: "IsRegExp (example_isolate\<lparr>GetProperty := \<lambda>h obj name. (Inl (Exception Null), h)\<rparr>)
     example_heap (JSReceiver 21) = (Inr True, example_heap)"
    using fast by blast
  have rest: "IsRegExp example_isolate example_heap (Smi 4) = (Inr False, example_heap) \<and>
   IsRegExp example_isolate example_heap (JSReceiver 2) = (Inr True, example_heap) \<and>
   IsRegExp example_isolate example_heap (JSReceiver 3) = (Inr False, example_heap) \<and>
   IsRegExp example_isolate example_heap (JSReceiver 15) = (Inr True, example_heap) \<and>
   IsRegExp example_isolate example_heap (JSReceiver 6) = (Inl (Exception (Smi 99)), example_heap)"
    using IsRegExp_cases [of "Smi 4" example_isolate example_heap]
      IsRegExp_cases [of "JSReceiver 2" example_isolate example_heap]
      IsRegExp_cases [of "JSReceiver 3" example_isolate example_heap]
      IsRegExp_cases [of "JSReceiver 15" example_isolate example_heap]
      IsRegExp_cases [of "JSReceiver 6" example_isolate example_heap]
    by (simp add: example_maps example_regexps example_isolate_simps example_match_lookup
        IsUndefined_def IsJSReceiver_def example_BooleanValue_def)
  from a b rest show ?thesis by simp
qed

section \<open>The lastIndex accessors\<close>

text \<open>
  C7. On a receiver with the initial map of the \<^verbatim>\<open>RegExp\<close> function \<open>GetLastIndex\<close>
  returns the slot and \<open>SetLastIndex\<close> stores into it; both succeed, whatever the generic
  property get and set would do. On every other receiver they are the generic property
  get and the generic property set of the key \<^verbatim>\<open>lastIndex\<close>, the set in strict mode,
  and an exception of either is returned as it is.
\<close>

theorem LastIndex_accessors:
  "(HasInitialRegExpMap isolate heap recv \<longrightarrow>
      GetLastIndex isolate heap recv = (Inr (last_index (heap recv)), heap) \<and>
      SetLastIndex isolate heap recv v =
        (Inr (JSReceiver recv), heap(recv := (heap recv)\<lparr>last_index := Smi v\<rparr>)) \<and>
      (\<forall>lookup store.
         GetLastIndex (isolate\<lparr>GetProperty := lookup, SetProperty := store\<rparr>) heap recv =
           (Inr (last_index (heap recv)), heap) \<and>
         SetLastIndex (isolate\<lparr>GetProperty := lookup, SetProperty := store\<rparr>) heap recv v =
           (Inr (JSReceiver recv), heap(recv := (heap recv)\<lparr>last_index := Smi v\<rparr>)))) \<and>
   (\<not> HasInitialRegExpMap isolate heap recv \<longrightarrow>
      GetLastIndex isolate heap recv = GetProperty isolate heap (JSReceiver recv) lastIndex_string \<and>
      SetLastIndex isolate heap recv v =
        SetProperty isolate heap (JSReceiver recv) lastIndex_string (Smi v) STRICT \<and>
      (\<forall>e heap1.
         GetProperty isolate heap (JSReceiver recv) lastIndex_string = (Inl e, heap1) \<longrightarrow>
         GetLastIndex isolate heap recv = (Inl e, heap1)) \<and>
      (\<forall>e heap1.
         SetProperty isolate heap (JSReceiver recv) lastIndex_string (Smi v) STRICT = (Inl e, heap1) \<longrightarrow>
         SetLastIndex isolate heap recv v = (Inl e, heap1)))"
  by (simp add: GetLastIndex_def SetLastIndex_def JSRegExp_LastIndex_def JSRegExp_SetLastIndex_def
      HasInitialRegExpMap_def)

text \<open>
  An unmodified regular expression; a regular expression with a changed map; an object
  that is not extensible, on which the strict store throws where a sloppy store would be
  dropped; a proxy.
\<close>

theorem LastIndex_accessors_witness:
  "HasInitialRegExpMap example_isolate example_heap 21 \<and>
   GetLastIndex example_isolate example_heap 21 = (Inr (Smi 3), example_heap) \<and>
   fst (SetLastIndex example_isolate example_heap 21 9) = Inr (JSReceiver 21) \<and>
   last_index (snd (SetLastIndex example_isolate example_heap 21 9) 21) = Smi 9 \<and>
   \<not> HasInitialRegExpMap example_isolate example_heap 2 \<and>
   GetLastIndex example_isolate example_heap 2 = (Inr (Smi 5), example_heap) \<and>
   SetLastIndex example_isolate example_heap 4 9 = (Inl (Exception (Smi 98)), example_heap) \<and>
   example_SetProperty example_heap (JSReceiver 4) lastIndex_string (Smi 9) SLOPPY =
     (Inr (Smi 9), example_heap) \<and>
   GetLastIndex example_isolate example_heap 6 = (Inl (Exception (Smi 99)), example_heap) \<and>
   SetLastIndex example_isolate example_heap 6 9 = (Inl (Exception (Smi 99)), example_heap)"
  using LastIndex_accessors [of example_isolate example_heap 21 9]
    LastIndex_accessors [of example_isolate example_heap 2 9]
    LastIndex_accessors [of example_isolate example_heap 4 9]
    LastIndex_accessors [of example_isolate example_heap 6 9]
  by (simp add: example_maps example_isolate_simps example_lastIndex_access example_heap_21
      plain_object_def)

section \<open>The range of the coerced lastIndex\<close>

text \<open>
  C8. The value that \<open>ToLength\<close> returns ranges up to \<open>2^53 - 1\<close>, and
  \<open>SetAdvancedStringIndex\<close> casts it to a small integer. On an object whose
  \<^verbatim>\<open>lastIndex\<close> is \<open>2^31\<close> the coerced value is a heap number: the cast is applied to a
  value that is not a small integer, and nothing is stored. On an object whose
  \<^verbatim>\<open>lastIndex\<close> is \<open>2^31 - 1\<close> the addition wraps, and \<open>-2^31\<close> is stored.
\<close>

theorem SetAdvancedStringIndex_large_lastIndex:
  "GetProperty example_isolate example_heap (JSReceiver 3) lastIndex_string =
     (Inr (HeapNumber 2147483648), example_heap) \<and>
   ToLength example_isolate example_heap (HeapNumber 2147483648) =
     (Inr (HeapNumber 2147483648), example_heap) \<and>
   SetAdvancedStringIndex example_isolate example_heap 3 [0x61] False =
     (Inl (Fatal (NotASmi (HeapNumber 2147483648))), example_heap) \<and>
   GetProperty example_isolate example_heap (JSReceiver 16) lastIndex_string =
     (Inr (Smi 2147483647), example_heap) \<and>
   ToLength example_isolate example_heap (Smi 2147483647) =
     (Inr (Smi 2147483647), example_heap) \<and>
   SetAdvancedStringIndex example_isolate example_heap 16 [0x61] False =
     (Inr (Smi (- 2147483648)),
      example_heap(16 := (example_heap 16)
        \<lparr>properties := (lastIndex_string, Smi (- 2147483648)) # properties (example_heap 16)\<rparr>))"
proof -
  have a: "SetAdvancedStringIndex example_isolate example_heap 3 [0x61] False =
     (Inl (Fatal (NotASmi (HeapNumber 2147483648))), example_heap)"
    by (rule SetAdvancedStringIndex_not_a_Smi [where property = "HeapNumber 2147483648"
          and ?heap1.0 = example_heap])
      (simp_all add: example_isolate_simps example_lastIndex_read example_ToLength_values)
  have "SetAdvancedStringIndex example_isolate example_heap 16 [0x61] False =
     SetLastIndex example_isolate example_heap 16 INT_MIN"
    by (rule SetAdvancedStringIndex_INT_MAX [where property = "Smi 2147483647"
          and ?heap1.0 = example_heap])
      (simp_all add: example_isolate_simps example_lastIndex_read example_ToLength_values
        INT_MAX_def)
  then have b: "SetAdvancedStringIndex example_isolate example_heap 16 [0x61] False =
     (Inr (Smi (- 2147483648)),
      example_heap(16 := (example_heap 16)
        \<lparr>properties := (lastIndex_string, Smi (- 2147483648)) # properties (example_heap 16)\<rparr>))"
    by (simp add: SetLastIndex_def HasInitialRegExpMap_def example_isolate_simps INT_MIN_def
        example_SetProperty_def example_heap_lengths plain_object_def)
  from a b show ?thesis
    by (simp add: example_isolate_simps example_lastIndex_read example_ToLength_values)
qed

section \<open>The heap across RegExpExec\<close>

text \<open>
  C9. \<open>RegExpExec\<close> writes nothing itself. The heap it returns is the heap it was
  given, or the heap that the lookup of \<^verbatim>\<open>exec\<close> left, or the heap that a call on the
  receiver and the string left after that. Hence a relation between heaps that is
  reflexive and transitive and holds across every property get and every call of the
  engine holds across \<open>RegExpExec\<close>: what changes on the receiver, such as its
  \<^verbatim>\<open>lastIndex\<close>, is changed inside one of those calls.
\<close>

theorem RegExpExec_frame:
  "(\<exists>heap1.
      (if IsUndefined exec
       then heap1 = snd (GetProperty isolate heap (JSReceiver regexp)
                           (StringName (NewStringFromAsciiChecked ''exec'')))
       else heap1 = heap) \<and>
      (snd (RegExpExec isolate heap regexp string exec) = heap1 \<or>
       (\<exists>callee.
          snd (RegExpExec isolate heap regexp string exec) =
            snd (Execution_Call isolate heap1 callee (JSReceiver regexp) [String string])))) \<and>
   ((\<forall>h. R h h) \<and>
    (\<forall>h1 h2 h3. R h1 h2 \<and> R h2 h3 \<longrightarrow> R h1 h3) \<and>
    (\<forall>h obj name. R h (snd (GetProperty isolate h obj name))) \<and>
    (\<forall>h callee recv args. R h (snd (Execution_Call isolate h callee recv args))) \<longrightarrow>
    R heap (snd (RegExpExec isolate heap regexp string exec)))"
proof -
  define final where "final = snd (RegExpExec isolate heap regexp string exec)"
  obtain r1 heap1 where lookup:
    "(if IsUndefined exec
      then GetProperty isolate heap (JSReceiver regexp)
             (StringName (NewStringFromAsciiChecked ''exec''))
      else (Inr exec, heap)) = (r1, heap1)"
    by (cases "if IsUndefined exec
      then GetProperty isolate heap (JSReceiver regexp)
             (StringName (NewStringFromAsciiChecked ''exec''))
      else (Inr exec, heap)") auto
  have first: "if IsUndefined exec
       then heap1 = snd (GetProperty isolate heap (JSReceiver regexp)
                           (StringName (NewStringFromAsciiChecked ''exec'')))
       else heap1 = heap"
    using lookup by (cases "IsUndefined exec") auto
  have second: "final = heap1 \<or>
       (\<exists>callee. final =
          snd (Execution_Call isolate heap1 callee (JSReceiver regexp) [String string]))"
  proof (cases r1)
    case (Inl e)
    with lookup show ?thesis by (simp add: final_def RegExpExec_def)
  next
    case (Inr exec1)
    obtain r2 heap2 where made:
      "Execution_Call isolate heap1 exec1 (JSReceiver regexp) [String string] = (r2, heap2)"
      by (cases "Execution_Call isolate heap1 exec1 (JSReceiver regexp) [String string]") auto
    then have heap2: "heap2 =
        snd (Execution_Call isolate heap1 exec1 (JSReceiver regexp) [String string])"
      by simp
    show ?thesis
    proof (cases "IsCallable heap1 exec1")
      case True
      with Inr lookup made have "final = heap2"
        by (cases r2) (auto simp: final_def RegExpExec_def)
      with heap2 show ?thesis by blast
    next
      case False
      with Inr lookup have
        "final = heap1 \<or>
         final = snd (Execution_Call isolate heap1 (regexp_exec_function isolate)
                        (JSReceiver regexp) [String string])"
        by (auto simp: final_def RegExpExec_def)
      then show ?thesis by blast
    qed
  qed
  have frame: "R heap final"
    if refl: "\<forall>h. R h h"
      and trans: "\<forall>h1 h2 h3. R h1 h2 \<and> R h2 h3 \<longrightarrow> R h1 h3"
      and get: "\<forall>h obj name. R h (snd (GetProperty isolate h obj name))"
      and call: "\<forall>h callee recv args. R h (snd (Execution_Call isolate h callee recv args))"
  proof -
    have step1: "R heap heap1"
      using first refl get by (cases "IsUndefined exec") auto
    have step2: "R heap1 final"
      using second refl call by auto
    from trans step1 step2 show ?thesis by blast
  qed
  from first second frame show ?thesis
    unfolding final_def by blast
qed

text \<open>
  On the example engine the built-in exec function changes the \<^verbatim>\<open>lastIndex\<close> of its
  receiver and no map; with calls that leave the heap alone, \<open>RegExpExec\<close> returns the
  heap it was given.
\<close>

theorem RegExpExec_frame_witness:
  "obj_map (snd (RegExpExec example_isolate example_heap 21 [0x61] Undefined) 21) =
     obj_map (example_heap 21) \<and>
   snd (RegExpExec example_isolate example_heap 21 [0x61] Undefined) =
     example_heap(21 := (example_heap 21)\<lparr>last_index := Smi 1\<rparr>) \<and>
   snd (example_Call example_heap (JSReceiver 20) (JSReceiver 21) [String [0x61]]) =
     example_heap(21 := (example_heap 21)\<lparr>last_index := Smi 1\<rparr>) \<and>
   snd (RegExpExec (example_isolate\<lparr>Execution_Call := \<lambda>h callee recv args. (Inr Null, h)\<rparr>)
          example_heap 21 [0x61] Undefined) = example_heap"
proof -
  have a: "obj_map (snd (RegExpExec example_isolate example_heap 21 [0x61] Undefined) 21) =
     obj_map (example_heap 21)"
    using RegExpExec_frame [of Undefined example_isolate example_heap 21 "[0x61]"
        "\<lambda>h h'. obj_map (h' 21) = obj_map (h 21)"]
    by (simp add: example_isolate_simps example_GetProperty_heap example_Call_map)
  have b: "snd (RegExpExec (example_isolate\<lparr>Execution_Call := \<lambda>h callee recv args. (Inr Null, h)\<rparr>)
          example_heap 21 [0x61] Undefined) = example_heap"
    using RegExpExec_frame [of Undefined
        "example_isolate\<lparr>Execution_Call := \<lambda>h callee recv args. (Inr Null, h)\<rparr>"
        example_heap 21 "[0x61]" "\<lambda>h h'. h' = h"]
    by (simp add: example_isolate_simps example_GetProperty_heap)
  have c: "snd (RegExpExec example_isolate example_heap 21 [0x61] Undefined) =
     example_heap(21 := (example_heap 21)\<lparr>last_index := Smi 1\<rparr>)"
    by (simp add: RegExpExec_def IsUndefined_def example_isolate_simps example_exec_lookup
        example_callables IsCallable_def example_regexps example_builtin_exec)
  from a b c example_builtin_exec show ?thesis by simp
qed

section \<open>The string reads of AdvanceStringIndex\<close>

text \<open>
  C10. \<open>AdvanceStringIndex\<close> reads the code unit at \<open>index\<close> only when \<open>index\<close> is below
  the length of the string, the one at \<open>index + 1\<close> only when \<open>index + 1\<close> is below the
  length, and no other. When the index is not negative, every position read is inside
  the string and the function returns. The guards do not keep a negative index out: with
  the index \<open>-1\<close> in full-Unicode mode the position \<open>-1\<close> is read.
\<close>

theorem AdvanceStringIndex_reads:
  "(index \<in> set (fst (AdvanceStringIndex s index unicode)) \<longrightarrow> index < String_length s) \<and>
   (index + 1 \<in> set (fst (AdvanceStringIndex s index unicode)) \<longrightarrow> index + 1 < String_length s) \<and>
   set (fst (AdvanceStringIndex s index unicode)) \<subseteq> {index, index + 1} \<and>
   (0 \<le> index \<longrightarrow>
      (\<forall>p \<in> set (fst (AdvanceStringIndex s index unicode)). 0 \<le> p \<and> p < String_length s) \<and>
      (\<exists>n. snd (AdvanceStringIndex s index unicode) = Inr n)) \<and>
   fst (AdvanceStringIndex [0x41] (- 1) True) = [- 1]"
  by (auto simp: AdvanceStringIndex_def String_Get_def String_length_def split: sum.splits)

text \<open>At the surrogate pair of the string above the positions 1 and 2 are read.\<close>

theorem AdvanceStringIndex_reads_witness:
  "fst (AdvanceStringIndex [0x61, 0xD834, 0xDF06, 0x62] 1 True) = [1, 2] \<and>
   (1::int) \<in> set (fst (AdvanceStringIndex [0x61, 0xD834, 0xDF06, 0x62] 1 True)) \<and>
   (1::int) < String_length [0x61, 0xD834, 0xDF06, 0x62] \<and>
   (1::int) + 1 < String_length [0x61, 0xD834, 0xDF06, 0x62] \<and>
   (\<exists>n. snd (AdvanceStringIndex [0x61, 0xD834, 0xDF06, 0x62] 1 True) = Inr n)"
  using AdvanceStringIndex_reads [of 1 "[0x61, 0xD834, 0xDF06, 0x62]" True] reads_example
  by simp

end
